theory Spec2Isabelle
  imports Complex_Main
begin

section \<open>The bottom sheet of \<^verbatim>\<open>src/components/ui/bottom-sheet.tsx\<close>\<close>

text \<open>
  The component is a React function component. Its hooks hold the state, its callbacks
  change it, and the animation library and the timer call back into it later. The model
  is a state record, one function per callback of the source, and a step function over
  the events that reach the component.

  Numbers of the source are JavaScript doubles. The state machine is modelled on exact
  reals; NaN and the infinities are outside the model. The two computations whose
  outcome rounding decides, the snap offsets and the nearest snap, are modelled a second
  time with every operation rounded to a double (subsection Double precision), and the
  properties that depend on them are proved of those definitions. The one place where
  the source computes with \<^verbatim>\<open>undefined\<close> (reading \<^verbatim>\<open>snapHeights[0]\<close> of an empty array)
  is modelled by a case distinction on the list: a comparison with NaN is false.
\<close>

subsection \<open>Configuration and state\<close>

text \<open>
  The props that the state machine reads, with \<^verbatim>\<open>SCREEN_HEIGHT\<close>, the module constant
  read from \<^verbatim>\<open>Dimensions.get("window")\<close>. The optional callbacks \<^verbatim>\<open>onClose\<close> and
  \<^verbatim>\<open>onOpen\<close> are booleans: whether the caller supplied one. Props that only style the
  rendering (children, backdropColor, accessibilityLabel) are left out.
\<close>

record props =
  SCREEN_HEIGHT :: real
  snapPoints :: "real list"
  enablePanDownToClose :: bool
  enableBackdropDismiss :: bool
  onClose :: bool
  onOpen :: bool

text \<open>What the component does to the outside: the two lifecycle callbacks and the haptic pulse.\<close>

datatype effect = OnOpen | OnClose | TriggerHaptic

text \<open>
  The two closures passed as \<^verbatim>\<open>cb\<close> to \<^verbatim>\<open>animateTo\<close>: \<^verbatim>\<open>() => triggerHaptic()\<close> in
  \<^verbatim>\<open>snapToIndex\<close>, and \<^verbatim>\<open>() => { setVisible(false); onClose?.(); }\<close> in \<^verbatim>\<open>close\<close>.
\<close>

datatype completion = HapticCb | CloseCb

text \<open>
  The hooks of the component: the two animated values, the refs \<^verbatim>\<open>lastOffset\<close> and
  \<^verbatim>\<open>isPanning\<close>, the state variables, and what is pending outside the component: the
  running \<^verbatim>\<open>Animated.parallel\<close> (its target and its completion closure), the number of
  \<^verbatim>\<open>setTimeout\<close> callbacks of \<^verbatim>\<open>open\<close> not yet run, and the effects so far, oldest first.
\<close>

record sheet =
  translateY :: real
  backdropOpacity :: real
  lastOffset :: real
  visible :: bool
  currentSnapIndex :: int
  isPanning :: bool
  keyboardHeight :: real
  animation :: "(real \<times> completion) option"
  timers :: nat
  effects :: "effect list"

text \<open>The first render: the initial values of \<^verbatim>\<open>useRef\<close> and \<^verbatim>\<open>useState\<close>.\<close>

definition mount :: "props \<Rightarrow> sheet" where
  "mount p =
     \<lparr>translateY = SCREEN_HEIGHT p, backdropOpacity = 0, lastOffset = SCREEN_HEIGHT p,
      visible = False, currentSnapIndex = 1, isPanning = False, keyboardHeight = 0,
      animation = None, timers = 0, effects = []\<rparr>"

text \<open>\<^verbatim>\<open>snapPoints.map((point) => SCREEN_HEIGHT * (1 - point))\<close>\<close>

definition snapHeights :: "props \<Rightarrow> real list" where
  "snapHeights p = map (\<lambda>point. SCREEN_HEIGHT p * (1 - point)) (snapPoints p)"

subsection \<open>The operations\<close>

text \<open>
  \<^verbatim>\<open>triggerHaptic\<close>: the platform test and the exception handler around the haptics
  service are not modelled; the effect records that \<^verbatim>\<open>triggerHaptic\<close> was called.
\<close>

definition triggerHaptic :: "sheet \<Rightarrow> sheet" where
  "triggerHaptic s = s\<lparr>effects := effects s @ [TriggerHaptic]\<rparr>"

text \<open>
  \<^verbatim>\<open>animateTo(toValue, cb)\<close> starts a spring on \<^verbatim>\<open>translateY\<close> and a timing on
  \<^verbatim>\<open>backdropOpacity\<close>. Starting an animation on an animated value stops the one running
  on it, whose completion then receives \<^verbatim>\<open>finished = false\<close>; the source's completion
  does nothing in that case, so the earlier animation and its \<^verbatim>\<open>cb\<close> are dropped.
\<close>

definition animateTo :: "real \<Rightarrow> completion \<Rightarrow> sheet \<Rightarrow> sheet" where
  "animateTo toValue cb s = s\<lparr>animation := Some (toValue, cb)\<rparr>"

definition run_completion :: "props \<Rightarrow> completion \<Rightarrow> sheet \<Rightarrow> sheet" where
  "run_completion p cb s =
     (case cb of
        HapticCb \<Rightarrow> triggerHaptic s
      | CloseCb \<Rightarrow>
          (let s1 = s\<lparr>visible := False\<rparr>
           in if onClose p then s1\<lparr>effects := effects s1 @ [OnClose]\<rparr> else s1))"

text \<open>
  The running animation completes with \<^verbatim>\<open>finished = true\<close>: both values are at their
  targets, and the completion of \<^verbatim>\<open>animateTo\<close> commits \<^verbatim>\<open>lastOffset\<close> and calls \<^verbatim>\<open>cb\<close>.
\<close>

definition animation_finished :: "props \<Rightarrow> sheet \<Rightarrow> sheet" where
  "animation_finished p s =
     (case animation s of
        None \<Rightarrow> s
      | Some (toValue, cb) \<Rightarrow>
          run_completion p cb
            (s\<lparr>translateY := toValue,
               backdropOpacity := (if toValue = SCREEN_HEIGHT p then 0 else 1),
               animation := None,
               lastOffset := toValue\<rparr>))"

text \<open>
  A frame of the running animation writes intermediate values: the spring's into
  \<^verbatim>\<open>translateY\<close>, the timing's into \<^verbatim>\<open>backdropOpacity\<close>.
\<close>

definition animation_frame :: "real \<Rightarrow> real \<Rightarrow> sheet \<Rightarrow> sheet" where
  "animation_frame v opacity s =
     (if animation s = None then s else s\<lparr>translateY := v, backdropOpacity := opacity\<rparr>)"

definition snapToIndex :: "props \<Rightarrow> int \<Rightarrow> sheet \<Rightarrow> sheet" where
  "snapToIndex p index s =
     (if index \<ge> 0 \<and> index < int (length (snapHeights p))
      then animateTo (snapHeights p ! nat index) HapticCb (s\<lparr>currentSnapIndex := index\<rparr>)
      else s)"

text \<open>\<^verbatim>\<open>open\<close> shows the sheet and schedules the timer; \<^verbatim>\<open>open_timeout\<close> is the timer's body.\<close>

definition "open" :: "sheet \<Rightarrow> sheet" where
  "open s = s\<lparr>visible := True, timers := Suc (timers s)\<rparr>"

definition open_timeout :: "props \<Rightarrow> sheet \<Rightarrow> sheet" where
  "open_timeout p s =
     (let s1 = snapToIndex p 1 s
      in if onOpen p then s1\<lparr>effects := effects s1 @ [OnOpen]\<rparr> else s1)"

definition close :: "props \<Rightarrow> sheet \<Rightarrow> sheet" where
  "close p s = animateTo (SCREEN_HEIGHT p) CloseCb s"

text \<open>
  \<^verbatim>\<open>findNearestSnap\<close>: the \<^verbatim>\<open>forEach\<close> is the loop below, carrying the index and the pair
  \<^verbatim>\<open>(nearest, minDist)\<close>. On an empty array \<^verbatim>\<open>minDist\<close> is NaN, the loop has no
  iteration and the result is 0.
\<close>

fun findNearestSnap_forEach :: "real \<Rightarrow> real list \<Rightarrow> nat \<Rightarrow> nat \<times> real \<Rightarrow> nat \<times> real" where
  "findNearestSnap_forEach position [] index (nearest, minDist) = (nearest, minDist)"
| "findNearestSnap_forEach position (height # rest) index (nearest, minDist) =
     (let dist = \<bar>position - height\<bar>
      in if dist < minDist
         then findNearestSnap_forEach position rest (Suc index) (index, dist)
         else findNearestSnap_forEach position rest (Suc index) (nearest, minDist))"

definition findNearestSnap :: "real list \<Rightarrow> real \<Rightarrow> nat" where
  "findNearestSnap hs position =
     (case hs of
        [] \<Rightarrow> 0
      | h0 # _ \<Rightarrow> fst (findNearestSnap_forEach position hs 0 (0, \<bar>position - h0\<bar>)))"

subsection \<open>The gesture handlers\<close>

text \<open>
  \<^verbatim>\<open>onPanResponderGrant\<close>: \<^verbatim>\<open>stopAnimation\<close> stops the running animation and hands the
  live value to its callback.
\<close>

definition onPanResponderGrant :: "sheet \<Rightarrow> sheet" where
  "onPanResponderGrant s =
     (if isPanning s then s
      else triggerHaptic (s\<lparr>isPanning := True, animation := None, lastOffset := translateY s\<rparr>))"

text \<open>
  \<^verbatim>\<open>onPanResponderMove\<close>: \<^verbatim>\<open>Animated.event\<close> first writes \<^verbatim>\<open>dy\<close> into \<^verbatim>\<open>translateY\<close>,
  then runs the listener, whose \<^verbatim>\<open>setValue\<close> decides the value; \<^verbatim>\<open>setValue\<close> stops a
  running animation.
\<close>

definition onPanResponderMove :: "props \<Rightarrow> real \<Rightarrow> sheet \<Rightarrow> sheet" where
  "onPanResponderMove p dy s =
     (let s0 = s\<lparr>translateY := dy, animation := None\<rparr>;
          newY = lastOffset s0 + dy
      in case snapHeights p of
           [] \<Rightarrow>
             (if newY > SCREEN_HEIGHT p \<and> enablePanDownToClose p
              then (let resistance = (newY - SCREEN_HEIGHT p) * 0.2
                    in s0\<lparr>translateY := SCREEN_HEIGHT p + resistance\<rparr>)
              else s0\<lparr>translateY := newY\<rparr>)
         | h0 # _ \<Rightarrow>
             (if newY < h0
              then (let resistance = (h0 - newY) * 0.5
                    in s0\<lparr>translateY := h0 - resistance\<rparr>)
              else if newY > SCREEN_HEIGHT p \<and> enablePanDownToClose p
              then (let resistance = (newY - SCREEN_HEIGHT p) * 0.2
                    in s0\<lparr>translateY := SCREEN_HEIGHT p + resistance\<rparr>)
              else s0\<lparr>translateY := newY\<rparr>))"

text \<open>
  \<^verbatim>\<open>onPanResponderRelease\<close>. The handler reads the variable \<^verbatim>\<open>currentSnapIndex\<close> of the
  render in which \<^verbatim>\<open>PanResponder.create\<close> built it; that value is the second argument.
\<close>

definition onPanResponderRelease :: "props \<Rightarrow> int \<Rightarrow> real \<Rightarrow> real \<Rightarrow> sheet \<Rightarrow> sheet" where
  "onPanResponderRelease p currentSnapIndex_seen dy vy s =
     (let s1 = s\<lparr>isPanning := False\<rparr>;
          currentY = lastOffset s1 + dy;
          velocity = vy
      in if enablePanDownToClose p \<and> dy > 200 \<and> velocity > 0.7 then close p s1
         else if \<bar>velocity\<bar> > 0.7
         then (let direction = (if velocity > 0 then 1 else - 1);
                   nextIndex = min (max (currentSnapIndex_seen + direction) 0)
                                   (int (length (snapHeights p)) - 1)
               in snapToIndex p nextIndex s1)
         else (let nearestIndex = findNearestSnap (snapHeights p) currentY
               in snapToIndex p (int nearestIndex) s1))"

definition onPanResponderTerminate :: "props \<Rightarrow> sheet \<Rightarrow> sheet" where
  "onPanResponderTerminate p s =
     (let s1 = s\<lparr>isPanning := False\<rparr>;
          nearestIndex = findNearestSnap (snapHeights p) (lastOffset s1)
      in snapToIndex p (int nearestIndex) s1)"

subsection \<open>Events\<close>

text \<open>
  What reaches the component: the calls through its ref, the timer of \<^verbatim>\<open>open\<close>, the
  animation library (a frame, the completion), the gesture responder, the keyboard
  listeners and a press on the backdrop.

  The pan responder is \<^verbatim>\<open>useRef(PanResponder.create({...})).current\<close>: \<^verbatim>\<open>useRef\<close> keeps
  the object built in the first render, so its handlers see the first render's variables
  for the life of the component. Props are fixed here, so only the state variable
  \<^verbatim>\<open>currentSnapIndex\<close> differs between renders: the release handler sees its initial
  value, \<^term>\<open>currentSnapIndex (mount p)\<close>, not the one of the current state.
\<close>

datatype event =
    Open
  | Close
  | SnapToIndex int
  | TimerFired
  | AnimationFinished
  | AnimationFrame real real
  | Grant
  | Move real
  | Release real real
  | Terminate
  | KeyboardShow real
  | KeyboardHide
  | BackdropPress

fun step :: "props \<Rightarrow> event \<Rightarrow> sheet \<Rightarrow> sheet" where
  "step p Open s = open s"
| "step p Close s = close p s"
| "step p (SnapToIndex i) s = snapToIndex p i s"
| "step p TimerFired s =
     (if timers s = 0 then s else open_timeout p (s\<lparr>timers := timers s - 1\<rparr>))"
| "step p AnimationFinished s = animation_finished p s"
| "step p (AnimationFrame v opacity) s = animation_frame v opacity s"
| "step p Grant s = onPanResponderGrant s"
| "step p (Move dy) s = onPanResponderMove p dy s"
| "step p (Release dy vy) s = onPanResponderRelease p (currentSnapIndex (mount p)) dy vy s"
| "step p Terminate s = onPanResponderTerminate p s"
| "step p (KeyboardShow h) s = s\<lparr>keyboardHeight := h\<rparr>"
| "step p KeyboardHide s = s\<lparr>keyboardHeight := 0\<rparr>"
| "step p BackdropPress s = (if enableBackdropDismiss p then close p s else s)"

fun run :: "props \<Rightarrow> event list \<Rightarrow> sheet \<Rightarrow> sheet" where
  "run p [] s = s"
| "run p (e # es) s = run p es (step p e s)"




subsection \<open>Double precision\<close>

text \<open>
  The definitions above compute in exact reals. The source computes in IEEE 754 binary64:
  every \<^verbatim>\<open>+\<close>, \<^verbatim>\<open>-\<close> and \<^verbatim>\<open>*\<close> returns the double nearest to the exact result, ties
  going to the even significand. Where the outcome is a comparison of computed numbers
  (the order of the snap offsets, the nearest snap), rounding decides, and the
  computations are repeated here with every operation rounded.

  \<open>fl x\<close> is the double nearest to \<open>x\<close>: \<open>x\<close> is rounded to a multiple of
  \<open>2 ^ ulp_exponent x\<close>, which leaves 53 significant bits for a normal number and is
  \<open>2 ^ - 1074\<close> for a subnormal one. Overflow to an infinity is outside the model:
  the results below are the source's as long as no operation exceeds the largest double.
\<close>

definition round_half_even :: "real \<Rightarrow> int" where
  "round_half_even q =
     (let n = \<lfloor>q\<rfloor>; r = q - of_int n
      in if r < 1 / 2 then n else if r > 1 / 2 then n + 1 else if even n then n else n + 1)"

definition ulp_exponent :: "real \<Rightarrow> int" where
  "ulp_exponent x = max \<lfloor>log 2 \<bar>x\<bar>\<rfloor> (- 1022) - 52"

definition fl :: "real \<Rightarrow> real" where
  "fl x = (if x = 0 then 0
           else of_int (round_half_even (x / 2 powi ulp_exponent x)) * 2 powi ulp_exponent x)"

text \<open>\<^verbatim>\<open>snapPoints.map((point) => SCREEN_HEIGHT * (1 - point))\<close>, in doubles.\<close>

definition snapHeights64 :: "props \<Rightarrow> real list" where
  "snapHeights64 p = map (\<lambda>point. fl (SCREEN_HEIGHT p * fl (1 - point))) (snapPoints p)"

text \<open>
  \<^verbatim>\<open>findNearestSnap\<close>, in doubles: \<^verbatim>\<open>Math.abs(position - height)\<close> rounds the difference;
  the absolute value is exact.
\<close>

fun findNearestSnap64_forEach :: "real \<Rightarrow> real list \<Rightarrow> nat \<Rightarrow> nat \<times> real \<Rightarrow> nat \<times> real" where
  "findNearestSnap64_forEach position [] index (nearest, minDist) = (nearest, minDist)"
| "findNearestSnap64_forEach position (height # rest) index (nearest, minDist) =
     (let dist = \<bar>fl (position - height)\<bar>
      in if dist < minDist
         then findNearestSnap64_forEach position rest (Suc index) (index, dist)
         else findNearestSnap64_forEach position rest (Suc index) (nearest, minDist))"

definition findNearestSnap64 :: "real list \<Rightarrow> real \<Rightarrow> nat" where
  "findNearestSnap64 hs position =
     (case hs of
        [] \<Rightarrow> 0
      | h0 # _ \<Rightarrow> fst (findNearestSnap64_forEach position hs 0 (0, \<bar>fl (position - h0)\<bar>)))"

text \<open>
  \<^verbatim>\<open>snapToIndex\<close> and \<^verbatim>\<open>onPanResponderRelease\<close> on the snap offsets in doubles; the
  release position \<^verbatim>\<open>lastOffset.current + gesture.dy\<close> is rounded. The velocity and the
  drag distance are doubles, and no double lies between the double written \<^verbatim>\<open>0.7\<close> and
  \<open>7/10\<close>, so the comparisons with \<open>0.7\<close> and \<open>200\<close> decide as the source's do.
\<close>

definition snapToIndex64 :: "props \<Rightarrow> int \<Rightarrow> sheet \<Rightarrow> sheet" where
  "snapToIndex64 p index s =
     (if index \<ge> 0 \<and> index < int (length (snapHeights64 p))
      then animateTo (snapHeights64 p ! nat index) HapticCb (s\<lparr>currentSnapIndex := index\<rparr>)
      else s)"

definition onPanResponderRelease64 :: "props \<Rightarrow> int \<Rightarrow> real \<Rightarrow> real \<Rightarrow> sheet \<Rightarrow> sheet" where
  "onPanResponderRelease64 p currentSnapIndex_seen dy vy s =
     (let s1 = s\<lparr>isPanning := False\<rparr>;
          currentY = fl (lastOffset s1 + dy);
          velocity = vy
      in if enablePanDownToClose p \<and> dy > 200 \<and> velocity > 0.7 then close p s1
         else if \<bar>velocity\<bar> > 0.7
         then (let direction = (if velocity > 0 then 1 else - 1);
                   nextIndex = min (max (currentSnapIndex_seen + direction) 0)
                                   (int (length (snapHeights64 p)) - 1)
               in snapToIndex64 p nextIndex s1)
         else (let nearestIndex = findNearestSnap64 (snapHeights64 p) currentY
               in snapToIndex64 p (int nearestIndex) s1))"

subsection \<open>Configurations used in the examples\<close>

text \<open>
  The defaults of the source (\<^verbatim>\<open>snapPoints = [0.3, 0.6, 0.9]\<close>, both dismiss policies on)
  on a screen 800 units high, with both callbacks supplied; a screen 1000 units high whose
  snap offsets are 100, 400 and 700; and a sheet configured with no snap point.
\<close>

definition default_props :: props where
  "default_props =
     \<lparr>SCREEN_HEIGHT = 800, snapPoints = [0.3, 0.6, 0.9], enablePanDownToClose = True,
      enableBackdropDismiss = True, onClose = True, onOpen = True\<rparr>"

definition tall_props :: props where
  "tall_props =
     \<lparr>SCREEN_HEIGHT = 1000, snapPoints = [0.9, 0.6, 0.3], enablePanDownToClose = True,
      enableBackdropDismiss = True, onClose = True, onOpen = True\<rparr>"

text \<open>
  Sheets for the rounding examples, their snap fractions written as the doubles they are.
  The first has the doubles written \<^verbatim>\<open>0.3\<close> and \<^verbatim>\<open>0.30000000000000004\<close>, which are
  adjacent; the second the doubles written \<^verbatim>\<open>0.9\<close> and \<^verbatim>\<open>0.3\<close>; the third has fractions
  and a height whose products are exact; the last two have the heights 0 and -800.
\<close>

definition adjacent_props :: props where
  "adjacent_props =
     \<lparr>SCREEN_HEIGHT = 800, snapPoints = [5404319552844595 / 2 ^ 54, 1351079888211149 / 2 ^ 52],
      enablePanDownToClose = True, enableBackdropDismiss = True, onClose = True, onOpen = True\<rparr>"

definition rounded_props :: props where
  "rounded_props =
     \<lparr>SCREEN_HEIGHT = 1000, snapPoints = [8106479329266893 / 2 ^ 53, 5404319552844595 / 2 ^ 54],
      enablePanDownToClose = True, enableBackdropDismiss = True, onClose = True, onOpen = True\<rparr>"

definition dyadic_props :: props where
  "dyadic_props =
     \<lparr>SCREEN_HEIGHT = 1024, snapPoints = [0.25, 0.5, 0.75], enablePanDownToClose = True,
      enableBackdropDismiss = True, onClose = True, onOpen = True\<rparr>"

definition flat_props :: props where
  "flat_props =
     \<lparr>SCREEN_HEIGHT = 0, snapPoints = [0.25, 0.5], enablePanDownToClose = True,
      enableBackdropDismiss = True, onClose = True, onOpen = True\<rparr>"

definition negative_props :: props where
  "negative_props =
     \<lparr>SCREEN_HEIGHT = - 800, snapPoints = [0.25, 0.5], enablePanDownToClose = True,
      enableBackdropDismiss = True, onClose = True, onOpen = True\<rparr>"

definition empty_props :: props where
  "empty_props =
     \<lparr>SCREEN_HEIGHT = 800, snapPoints = [], enablePanDownToClose = True,
      enableBackdropDismiss = True, onClose = True, onOpen = True\<rparr>"

section \<open>Properties\<close>

subsection \<open>Snap offsets\<close>


lemma snapHeights_Nil: "snapHeights p = [] \<longleftrightarrow> snapPoints p = []"
  by (simp add: snapHeights_def)

lemma nth_snapHeights:
  "i < length (snapPoints p) \<Longrightarrow> snapHeights p ! i = SCREEN_HEIGHT p * (1 - snapPoints p ! i)"
  by (simp add: snapHeights_def)

lemma snapHeights_default: "snapHeights default_props = [560, 320, 80]"
  by (simp add: snapHeights_def default_props_def)

lemma snapHeights_tall: "snapHeights tall_props = [100, 400, 700]"
  by (simp add: snapHeights_def tall_props_def)

subsection \<open>The nearest snap\<close>

text \<open>
  The invariant of the loop of \<^verbatim>\<open>findNearestSnap\<close>: before the element at index \<open>k\<close>,
  \<open>nearest\<close> is an index of the array, \<open>minDist\<close> is its distance, no index below \<open>k\<close>
  is nearer, and every index below \<open>nearest\<close> is strictly farther.
\<close>

lemma forEach_inv:
  assumes "k + length xs = length hs" "drop k hs = xs"
    and "n < length hs" "n \<le> k" "d = \<bar>pos - hs ! n\<bar>"
    and "\<forall>j<k. d \<le> \<bar>pos - hs ! j\<bar>" "\<forall>j<n. d < \<bar>pos - hs ! j\<bar>"
    and "findNearestSnap_forEach pos xs k (n, d) = (n', d')"
  shows "n' < length hs \<and> d' = \<bar>pos - hs ! n'\<bar> \<and> (\<forall>j<length hs. d' \<le> \<bar>pos - hs ! j\<bar>)
         \<and> (\<forall>j<n'. d' < \<bar>pos - hs ! j\<bar>)"
  using assms
proof (induction xs arbitrary: k n d)
  case Nil
  then show ?case by auto
next
  case (Cons h rest)
  have kl: "k < length hs" using Cons.prems(1) by simp
  have hk: "hs ! k = h" using Cons.prems(2) kl
    by (metis nth_via_drop)
  have dr: "drop (Suc k) hs = rest" using Cons.prems(2)
    by (metis drop_Suc tl_drop list.sel(3))
  have len: "Suc k + length rest = length hs" using Cons.prems(1) by simp
  show ?case
  proof (cases "\<bar>pos - h\<bar> < d")
    case True
    have run: "findNearestSnap_forEach pos rest (Suc k) (k, \<bar>pos - h\<bar>) = (n', d')"
      using Cons.prems(8) True by simp
    have a: "\<forall>j<Suc k. \<bar>pos - h\<bar> \<le> \<bar>pos - hs ! j\<bar>"
      using Cons.prems(6) True hk by (auto simp: less_Suc_eq)
    have b: "\<forall>j<k. \<bar>pos - h\<bar> < \<bar>pos - hs ! j\<bar>"
      using Cons.prems(6) True by fastforce
    show ?thesis
      by (rule Cons.IH[OF len dr kl _ _ a b run]) (simp_all add: hk)
  next
    case False
    have run: "findNearestSnap_forEach pos rest (Suc k) (n, d) = (n', d')"
      using Cons.prems(8) False by simp
    have a: "\<forall>j<Suc k. d \<le> \<bar>pos - hs ! j\<bar>"
      using Cons.prems(6) False hk by (auto simp: less_Suc_eq)
    show ?thesis
      by (rule Cons.IH[OF len dr Cons.prems(3) _ Cons.prems(5) a Cons.prems(7) run])
         (simp add: Cons.prems(4) le_SucI)
  qed
qed

lemma findNearestSnap_nearest:
  assumes "hs \<noteq> []"
  shows "findNearestSnap hs pos < length hs"
    and "j < length hs \<Longrightarrow> \<bar>pos - hs ! findNearestSnap hs pos\<bar> \<le> \<bar>pos - hs ! j\<bar>"
    and "j < findNearestSnap hs pos \<Longrightarrow> \<bar>pos - hs ! findNearestSnap hs pos\<bar> < \<bar>pos - hs ! j\<bar>"
proof -
  obtain h0 rest where hs: "hs = h0 # rest" using assms by (cases hs) auto
  obtain n' d' where r: "findNearestSnap_forEach pos hs 0 (0, \<bar>pos - h0\<bar>) = (n', d')"
    by (cases "findNearestSnap_forEach pos hs 0 (0, \<bar>pos - h0\<bar>)") auto
  have f: "findNearestSnap hs pos = n'"
    using r by (simp add: findNearestSnap_def hs)
  have inv: "n' < length hs \<and> d' = \<bar>pos - hs ! n'\<bar> \<and> (\<forall>j<length hs. d' \<le> \<bar>pos - hs ! j\<bar>)
         \<and> (\<forall>j<n'. d' < \<bar>pos - hs ! j\<bar>)"
  proof (rule forEach_inv[where k = 0 and xs = hs and n = 0 and d = "\<bar>pos - h0\<bar>" and pos = pos])
    show "findNearestSnap_forEach pos hs 0 (0, \<bar>pos - h0\<bar>) = (n', d')" by (rule r)
  qed (simp_all add: hs)
  show "findNearestSnap hs pos < length hs" using inv f by simp
  show "j < length hs \<Longrightarrow> \<bar>pos - hs ! findNearestSnap hs pos\<bar> \<le> \<bar>pos - hs ! j\<bar>"
    using inv f by auto
  show "j < findNearestSnap hs pos \<Longrightarrow> \<bar>pos - hs ! findNearestSnap hs pos\<bar> < \<bar>pos - hs ! j\<bar>"
    using inv f by auto
qed

subsection \<open>The branches of the handlers\<close>

lemma snapToIndex_accepts:
  "i < length (snapHeights p) \<Longrightarrow>
   snapToIndex p (int i) s = animateTo (snapHeights p ! i) HapticCb (s\<lparr>currentSnapIndex := int i\<rparr>)"
  by (simp add: snapToIndex_def)

lemma mount_index: "currentSnapIndex (mount p) = 1"
  by (simp add: mount_def)

text \<open>
  The fast flick. The index the handler adds the direction to is the one of the first
  render, which is 1 whatever the sheet's snap index is at the release.
\<close>

lemma release_flick:
  "\<not> (enablePanDownToClose p \<and> dy > 200 \<and> vy > 0.7) \<Longrightarrow> \<bar>vy\<bar> > 0.7 \<Longrightarrow>
   step p (Release dy vy) s =
     snapToIndex p (min (max (1 + (if vy > 0 then 1 else - 1)) 0) (int (length (snapHeights p)) - 1))
       (s\<lparr>isPanning := False\<rparr>)"
  by (auto simp add: onPanResponderRelease_def Let_def mount_index)

lemma release_slow:
  "\<bar>vy\<bar> \<le> 0.7 \<Longrightarrow>
   step p (Release dy vy) s =
     snapToIndex p (int (findNearestSnap (snapHeights p) (lastOffset s + dy))) (s\<lparr>isPanning := False\<rparr>)"
  by (auto simp add: onPanResponderRelease_def Let_def)

lemma terminate_eq:
  "step p Terminate s =
     snapToIndex p (int (findNearestSnap (snapHeights p) (lastOffset s))) (s\<lparr>isPanning := False\<rparr>)"
  by (simp add: onPanResponderTerminate_def Let_def)

lemma clamped_index_in_range:
  fixes n :: nat and c :: int
  assumes "0 < n"
  shows "0 \<le> min (max c 0) (int n - 1)" and "min (max c 0) (int n - 1) < int n"
  using assms by linarith+

subsection \<open>The claims\<close>

text \<open>
  C2. Whenever \<^verbatim>\<open>enablePanDownToClose\<close> is true and a drag is released with \<open>dy > 200\<close>
  and \<open>vy > 0.7\<close>, the release handler calls \<^verbatim>\<open>close\<close> and nothing else: the animation
  to \<^verbatim>\<open>SCREEN_HEIGHT\<close> with the closing completion is started, whatever the state and its
  snap index are, and the snap index is not changed; when that animation settles the sheet
  is at \<^verbatim>\<open>SCREEN_HEIGHT\<close> and not visible. No other condition is tested first, so the
  branch has priority over the fast flick and the nearest snap.
\<close>

theorem fast_dismiss_closes:
  assumes "enablePanDownToClose p" and "dy > 200" and "vy > 0.7"
  shows "step p (Release dy vy) s = close p (s\<lparr>isPanning := False\<rparr>)
       \<and> animation (step p (Release dy vy) s) = Some (SCREEN_HEIGHT p, CloseCb)
       \<and> currentSnapIndex (step p (Release dy vy) s) = currentSnapIndex s
       \<and> translateY (run p [Release dy vy, AnimationFinished] s) = SCREEN_HEIGHT p
       \<and> \<not> visible (run p [Release dy vy, AnimationFinished] s)"
  using assms
  by (simp add: onPanResponderRelease_def Let_def close_def animateTo_def
      animation_finished_def run_completion_def)

text \<open>The example of the specification: drag distance 250, velocity 0.9.\<close>

theorem fast_dismiss_closes_witness:
  "enablePanDownToClose default_props \<and> (250::real) > 200 \<and> (0.9::real) > 0.7
   \<and> animation (step default_props (Release 250 0.9) (mount default_props)) = Some (800, CloseCb)
   \<and> translateY (run default_props [Release 250 0.9, AnimationFinished] (mount default_props)) = 800
   \<and> \<not> visible (run default_props [Release 250 0.9, AnimationFinished] (mount default_props))"
proof -
  have h: "enablePanDownToClose default_props" "(250::real) > 200" "(0.9::real) > 0.7"
    by (simp_all add: default_props_def)
  have e: "SCREEN_HEIGHT default_props = 800" by (simp add: default_props_def)
  show ?thesis
    using h fast_dismiss_closes [OF h, of "mount default_props", THEN conjunct2]
    by (simp add: e)
qed

text \<open>
  C4. On a move event of a sheet with at least one snap point, with the candidate
  \<open>c = lastOffset + dy\<close>, the value left in \<^verbatim>\<open>translateY\<close> is
  \<open>snapHeights[0] - (snapHeights[0] - c) * 0.5\<close> if \<open>c < snapHeights[0]\<close>; else
  \<open>SCREEN_HEIGHT + (c - SCREEN_HEIGHT) * 0.2\<close> if \<open>c > SCREEN_HEIGHT\<close> and
  \<^verbatim>\<open>enablePanDownToClose\<close> is true; else \<open>c\<close> itself. The cases are tried in this order.
\<close>

theorem move_applies_edge_resistance:
  assumes "snapPoints p \<noteq> []"
  shows "translateY (step p (Move dy) s) =
          (let c = lastOffset s + dy; h0 = snapHeights p ! 0
           in if c < h0 then h0 - (h0 - c) * 0.5
              else if c > SCREEN_HEIGHT p \<and> enablePanDownToClose p
              then SCREEN_HEIGHT p + (c - SCREEN_HEIGHT p) * 0.2
              else c)"
proof -
  obtain h0 rest where hs: "snapHeights p = h0 # rest"
    using assms by (cases "snapHeights p") (auto simp: snapHeights_Nil)
  show ?thesis
    by (simp add: onPanResponderMove_def Let_def hs)
qed

text \<open>
  The example of the specification, a candidate 40 above \<open>snapHeights[0] = 560\<close>, is
  applied as \<open>560 - 20\<close>; a candidate 60 below the screen height 800 is applied as 812;
  a candidate between the two is applied as it is.
\<close>

theorem move_applies_edge_resistance_witness:
  "snapPoints default_props \<noteq> []
   \<and> snapHeights default_props ! 0 = 560
   \<and> translateY (step default_props (Move (- 40)) ((mount default_props)\<lparr>lastOffset := 560\<rparr>)) = 560 - 20
   \<and> translateY (step default_props (Move 300) ((mount default_props)\<lparr>lastOffset := 560\<rparr>)) = 812
   \<and> translateY (step default_props (Move 100) ((mount default_props)\<lparr>lastOffset := 560\<rparr>)) = 660"
proof -
  have h: "snapPoints default_props \<noteq> []" by (simp add: default_props_def)
  have e: "SCREEN_HEIGHT default_props = 800" "enablePanDownToClose default_props"
    by (simp_all add: default_props_def)
  show ?thesis
    using h
      move_applies_edge_resistance [OF h, of "- 40" "(mount default_props)\<lparr>lastOffset := 560\<rparr>"]
      move_applies_edge_resistance [OF h, of 300 "(mount default_props)\<lparr>lastOffset := 560\<rparr>"]
      move_applies_edge_resistance [OF h, of 100 "(mount default_props)\<lparr>lastOffset := 560\<rparr>"]
    by (simp add: snapHeights_default e Let_def mount_def)
qed

text \<open>
  C6. For every integer \<open>i\<close> outside \<open>[0, snapHeights.length)\<close>, \<^verbatim>\<open>snapToIndex(i)\<close>
  returns the state it was given: the snap index and the offset are unchanged, no
  animation is started (the pending one, if any, is untouched) and no effect is added.
  The source has no \<^verbatim>\<open>throw\<close> on this path, and the array is not read.
\<close>

theorem snapToIndex_out_of_range_is_noop:
  assumes "i < 0 \<or> int (length (snapHeights p)) \<le> i"
  shows "step p (SnapToIndex i) s = s"
  using assms by (auto simp add: snapToIndex_def)

theorem snapToIndex_out_of_range_is_noop_witness:
  "int (length (snapHeights default_props)) \<le> 3 \<and> (- 1 :: int) < 0
   \<and> step default_props (SnapToIndex 3) (mount default_props) = mount default_props
   \<and> step default_props (SnapToIndex (- 1)) (mount default_props) = mount default_props"
proof -
  have h: "(3::int) < 0 \<or> int (length (snapHeights default_props)) \<le> 3"
    by (simp add: snapHeights_default)
  have h': "(- 1::int) < 0 \<or> int (length (snapHeights default_props)) \<le> - 1"
    by simp
  show ?thesis
    using h snapToIndex_out_of_range_is_noop [OF h, of "mount default_props"]
      snapToIndex_out_of_range_is_noop [OF h', of "mount default_props"]
    by simp
qed

text \<open>
  C10. On a non-empty list of snap offsets \<^verbatim>\<open>findNearestSnap\<close> returns an index of the
  list, for every position. On a sheet with at least one snap point the terminate
  handler therefore passes an index that \<^verbatim>\<open>snapToIndex\<close> accepts, and so does the release
  handler whenever it does not dismiss the sheet (in the nearest-snap branch and in the
  fast-flick branch, whose index is clamped): the call sets the snap index and starts
  the animation.
\<close>

theorem gesture_index_in_range:
  assumes "hs \<noteq> []" and "snapPoints p \<noteq> []"
  shows "findNearestSnap hs pos < length hs
       \<and> findNearestSnap (snapHeights p) (lastOffset s) < length (snapHeights p)
       \<and> step p Terminate s =
           animateTo (snapHeights p ! findNearestSnap (snapHeights p) (lastOffset s)) HapticCb
             (s\<lparr>isPanning := False,
                currentSnapIndex := int (findNearestSnap (snapHeights p) (lastOffset s))\<rparr>)
       \<and> (\<not> (enablePanDownToClose p \<and> dy > 200 \<and> vy > 0.7) \<longrightarrow>
            (\<exists>i<length (snapHeights p).
               step p (Release dy vy) s =
                 animateTo (snapHeights p ! i) HapticCb
                   (s\<lparr>isPanning := False, currentSnapIndex := int i\<rparr>)))"
proof -
  have ne: "snapHeights p \<noteq> []" using assms(2) by (simp add: snapHeights_Nil)
  have t: "findNearestSnap (snapHeights p) y < length (snapHeights p)" for y
    by (rule findNearestSnap_nearest(1)[OF ne])
  have rel: "\<exists>i<length (snapHeights p).
               step p (Release dy vy) s =
                 animateTo (snapHeights p ! i) HapticCb
                   (s\<lparr>isPanning := False, currentSnapIndex := int i\<rparr>)"
    if nd: "\<not> (enablePanDownToClose p \<and> dy > 200 \<and> vy > 0.7)"
  proof (cases "\<bar>vy\<bar> > 0.7")
    case True
    define k where "k = nat (min (max (1 + (if vy > 0 then 1 else - 1)) 0)
                              (int (length (snapHeights p)) - 1))"
    have len: "0 < length (snapHeights p)" using ne by simp
    have k: "k < length (snapHeights p)"
      unfolding k_def using clamped_index_in_range[OF len] by (simp add: nat_less_iff)
    have ik: "int k = min (max (1 + (if vy > 0 then 1 else - 1)) 0)
                          (int (length (snapHeights p)) - 1)"
      unfolding k_def using clamped_index_in_range(1)[OF len] by simp
    have "step p (Release dy vy) s = snapToIndex p (int k) (s\<lparr>isPanning := False\<rparr>)"
      unfolding ik by (rule release_flick[OF nd True])
    then show ?thesis using k by (auto simp add: snapToIndex_accepts)
  next
    case False
    then have sl: "\<bar>vy\<bar> \<le> 0.7" by simp
    show ?thesis
      using t[of "lastOffset s + dy"] release_slow[OF sl, of p dy s]
      by (auto simp add: snapToIndex_accepts)
  qed
  have trm: "step p Terminate s =
           animateTo (snapHeights p ! findNearestSnap (snapHeights p) (lastOffset s)) HapticCb
             (s\<lparr>isPanning := False,
                currentSnapIndex := int (findNearestSnap (snapHeights p) (lastOffset s))\<rparr>)"
    unfolding terminate_eq by (rule snapToIndex_accepts[OF t])
  show ?thesis
    using findNearestSnap_nearest(1)[OF assms(1)] t trm rel by blast
qed

text \<open>
  On the sheet with snap offsets 100, 400 and 700, resting off screen at 1000: a
  terminate goes to index 2, and a flick that does not dismiss starts an animation to
  an index below 3.
\<close>

theorem gesture_index_in_range_witness:
  "[100, 400, 700] \<noteq> ([] :: real list) \<and> snapPoints tall_props \<noteq> []
   \<and> findNearestSnap [100, 400, 700] 390 < length [100, 400, 700 :: real]
   \<and> \<not> (10::real) > 200
   \<and> animation (step tall_props Terminate (mount tall_props)) = Some (700, HapticCb)
   \<and> currentSnapIndex (step tall_props Terminate (mount tall_props)) = 2
   \<and> currentSnapIndex (step tall_props (Release 10 1) (mount tall_props)) < 3
   \<and> animation (step tall_props (Release 10 1) (mount tall_props)) \<noteq> None"
proof -
  have h: "[100, 400, 700] \<noteq> ([] :: real list)" "snapPoints tall_props \<noteq> []"
    by (simp_all add: tall_props_def)
  have n: "\<not> (enablePanDownToClose tall_props \<and> (10::real) > 200 \<and> (1::real) > 0.7)"
    by simp
  have f: "findNearestSnap [100, 400, 700] 1000 = 2"
    by (simp add: findNearestSnap_def)
  have l: "lastOffset (mount tall_props) = 1000"
    by (simp add: mount_def tall_props_def)
  note g = gesture_index_in_range [OF h, of 390 "mount tall_props" 10 1]
  have r: "\<exists>i<length (snapHeights tall_props).
            step tall_props (Release 10 1) (mount tall_props) =
              animateTo (snapHeights tall_props ! i) HapticCb
                ((mount tall_props)\<lparr>isPanning := False, currentSnapIndex := int i\<rparr>)"
    using g n by blast
  have t: "step tall_props Terminate (mount tall_props) =
             animateTo 700 HapticCb ((mount tall_props)\<lparr>isPanning := False, currentSnapIndex := 2\<rparr>)"
    using g by (simp add: snapHeights_tall f l)
  show ?thesis
    using h n g r t by (auto simp add: animateTo_def snapHeights_tall)
qed

text \<open>
  C9, as stated, fails on the code. The component has no check of \<^verbatim>\<open>snapPoints\<close>: with
  an empty list the first render gives the usual initial state and an empty list of snap
  offsets, \<^verbatim>\<open>open()\<close> makes the sheet visible and \<^verbatim>\<open>onOpen\<close> is called, and the first
  gesture is handled: the slow release calls \<^verbatim>\<open>findNearestSnap\<close> on the empty list, which
  returns 0, and \<^verbatim>\<open>snapToIndex(0)\<close> rejects it.
\<close>

theorem empty_snapPoints_counterexample:
  "snapHeights empty_props = []
   \<and> mount empty_props =
       \<lparr>translateY = 800, backdropOpacity = 0, lastOffset = 800, visible = False,
        currentSnapIndex = 1, isPanning = False, keyboardHeight = 0, animation = None,
        timers = 0, effects = []\<rparr>
   \<and> run empty_props [Open, TimerFired, Grant] (mount empty_props) =
       \<lparr>translateY = 800, backdropOpacity = 0, lastOffset = 800, visible = True,
        currentSnapIndex = 1, isPanning = True, keyboardHeight = 0, animation = None,
        timers = 0, effects = [OnOpen, TriggerHaptic]\<rparr>
   \<and> step empty_props (Release 0 0) (run empty_props [Open, TimerFired, Grant] (mount empty_props)) =
       snapToIndex empty_props (int (findNearestSnap [] (800 + 0)))
         ((run empty_props [Open, TimerFired, Grant] (mount empty_props))\<lparr>isPanning := False\<rparr>)
   \<and> findNearestSnap [] (800 + 0) = 0
   \<and> run empty_props [Open, TimerFired, Grant, Release 0 0] (mount empty_props) =
       \<lparr>translateY = 800, backdropOpacity = 0, lastOffset = 800, visible = True,
        currentSnapIndex = 1, isPanning = False, keyboardHeight = 0, animation = None,
        timers = 0, effects = [OnOpen, TriggerHaptic]\<rparr>"
  by (simp add: empty_props_def mount_def open_def open_timeout_def snapToIndex_def
      snapHeights_def triggerHaptic_def onPanResponderGrant_def onPanResponderRelease_def
      findNearestSnap_def Let_def)

text \<open>
  C9, as amended. A sheet configured with an empty list of snap fractions is built
  without an error and has an empty list of snap offsets. On it \<^verbatim>\<open>findNearestSnap\<close>
  returns 0 for every position, \<^verbatim>\<open>snapToIndex\<close> rejects every index, a terminate only
  clears the panning guard, and a release either dismisses the sheet (when the dismiss
  condition holds) or only clears the panning guard: no animation is started and the
  snap index and the offset are unchanged.
\<close>

theorem empty_snapPoints_gestures_ignored:
  assumes "snapPoints p = []"
  shows "snapHeights p = []
       \<and> findNearestSnap (snapHeights p) pos = 0
       \<and> step p (SnapToIndex i) s = s
       \<and> step p Terminate s = s\<lparr>isPanning := False\<rparr>
       \<and> step p (Release dy vy) s =
           (if enablePanDownToClose p \<and> dy > 200 \<and> vy > 0.7
            then close p (s\<lparr>isPanning := False\<rparr>)
            else s\<lparr>isPanning := False\<rparr>)"
proof -
  have e: "snapHeights p = []" using assms by (simp add: snapHeights_def)
  show ?thesis
    by (auto simp add: e findNearestSnap_def snapToIndex_def onPanResponderTerminate_def
        onPanResponderRelease_def Let_def mount_def)
qed

theorem empty_snapPoints_gestures_ignored_witness:
  "snapPoints empty_props = []
   \<and> step empty_props Terminate (mount empty_props) = mount empty_props
   \<and> step empty_props (Release 0 0) (mount empty_props) = mount empty_props
   \<and> step empty_props (Release 10 1) (mount empty_props) = mount empty_props"
proof -
  have h: "snapPoints empty_props = []" by (simp add: empty_props_def)
  have m: "(mount empty_props)\<lparr>isPanning := False\<rparr> = mount empty_props"
    by (simp add: mount_def)
  show ?thesis
    using h
      empty_snapPoints_gestures_ignored [OF h, of _ _ "mount empty_props" 0 0, THEN conjunct2]
      empty_snapPoints_gestures_ignored [OF h, of _ _ "mount empty_props" 10 1, THEN conjunct2]
    by (simp add: m)
qed

text \<open>
  C1 says that a fast flick moves the sheet one index from its snap index at the release.
  The code adds the direction to the \<^verbatim>\<open>currentSnapIndex\<close> of the first render, which is
  1. On the default sheet: opened and settled (index 1), flicked upwards and settled, the
  sheet is at index 0; a flick with \<open>dy = 10\<close> and \<open>vy = 1\<close> then sets the snap index to 2
  and starts the animation to \<open>snapHeights[2] = 80\<close>, where C1 asks for index 1.
\<close>

theorem release_flick_from_index_0:
  "currentSnapIndex (run default_props
      [Open, TimerFired, AnimationFinished, Grant, Release (- 10) (- 1), AnimationFinished, Grant]
      (mount default_props)) = 0
   \<and> currentSnapIndex (run default_props
      [Open, TimerFired, AnimationFinished, Grant, Release (- 10) (- 1), AnimationFinished, Grant,
       Release 10 1]
      (mount default_props)) = 2
   \<and> animation (run default_props
      [Open, TimerFired, AnimationFinished, Grant, Release (- 10) (- 1), AnimationFinished, Grant,
       Release 10 1]
      (mount default_props)) = Some (80, HapticCb)"
  by (simp add: default_props_def mount_def open_def open_timeout_def snapToIndex_def
      snapHeights_def animateTo_def animation_finished_def run_completion_def triggerHaptic_def
      onPanResponderGrant_def onPanResponderRelease_def close_def Let_def)

subsection \<open>Rounding to a double\<close>

lemma round_half_even_of_int: "round_half_even (of_int n) = n"
  by (simp add: round_half_even_def)

lemma round_half_even_bounds:
  "\<lfloor>q\<rfloor> \<le> round_half_even q" "round_half_even q \<le> \<lfloor>q\<rfloor> + 1"
  by (simp_all add: round_half_even_def Let_def)

lemma round_half_even_mono: "q \<le> q' \<Longrightarrow> round_half_even q \<le> round_half_even q'"
proof -
  assume le: "q \<le> q'"
  have fm: "\<lfloor>q\<rfloor> \<le> \<lfloor>q'\<rfloor>" using le by (rule floor_mono)
  show ?thesis
  proof (cases "\<lfloor>q\<rfloor> = \<lfloor>q'\<rfloor>")
    case True
    then show ?thesis using le by (auto simp add: round_half_even_def Let_def)
  next
    case False
    then have "\<lfloor>q\<rfloor> + 1 \<le> \<lfloor>q'\<rfloor>" using fm by simp
    then show ?thesis
      using round_half_even_bounds(2)[of q] round_half_even_bounds(1)[of q'] by linarith
  qed
qed

lemma floor_log2_iff:
  assumes "0 < x"
  shows "\<lfloor>log 2 x\<rfloor> = k \<longleftrightarrow> 2 powi k \<le> x \<and> x < 2 powi (k + 1)"
proof -
  have a: "(2::real) powr real_of_int k = 2 powi k"
    by (rule powr_real_of_int') simp_all
  have b: "(2::real) powr (real_of_int k + 1) = 2 powi (k + 1)"
    using powr_real_of_int'[of 2 "k + 1"] by simp
  show ?thesis
    using floor_log_eq_powr_iff[of x 2 k] assms by (simp add: a b)
qed

text \<open>How a concrete number is rounded: its binade \<open>k\<close> gives the unit.\<close>

lemma fl_eq:
  assumes "2 powi k \<le> \<bar>x\<bar>" and "\<bar>x\<bar> < 2 powi (k + 1)"
  shows "fl x = of_int (round_half_even (x / 2 powi (max k (- 1022) - 52)))
                  * 2 powi (max k (- 1022) - 52)"
proof -
  have pos: "0 < \<bar>x\<bar>" using assms(1) by (smt (verit) zero_less_power_int)
  then have "\<lfloor>log 2 \<bar>x\<bar>\<rfloor> = k" using assms by (simp add: floor_log2_iff)
  then have "ulp_exponent x = max k (- 1022) - 52" by (simp add: ulp_exponent_def)
  then show ?thesis using pos by (simp add: fl_def)
qed

lemma fl_nonneg: "0 \<le> x \<Longrightarrow> 0 \<le> fl x"
proof -
  assume x: "0 \<le> x"
  have "0 \<le> x / 2 powi ulp_exponent x" using x by simp
  then have "0 \<le> \<lfloor>x / 2 powi ulp_exponent x\<rfloor>" by simp
  then have "0 \<le> round_half_even (x / 2 powi ulp_exponent x)"
    using round_half_even_bounds(1)[of "x / 2 powi ulp_exponent x"] by linarith
  then show ?thesis by (simp add: fl_def)
qed

text \<open>
  Rounding is monotone. Within a binade the unit is the same and rounding to a multiple
  of it is monotone; across binades the power of two between them separates the results.
\<close>

lemma fl_mono_pos:
  assumes "0 < x" and "x \<le> y"
  shows "fl x \<le> fl y"
proof -
  define kx where "kx = \<lfloor>log 2 x\<rfloor>"
  define ky where "ky = \<lfloor>log 2 y\<rfloor>"
  define ex where "ex = max kx (- 1022) - 52"
  define ey where "ey = max ky (- 1022) - 52"
  have y: "0 < y" using assms by simp
  have bx: "2 powi kx \<le> x" "x < 2 powi (kx + 1)"
    using floor_log2_iff[OF assms(1), of kx] by (simp_all add: kx_def)
  have by': "2 powi ky \<le> y" "y < 2 powi (ky + 1)"
    using floor_log2_iff[OF y, of ky] by (simp_all add: ky_def)
  have kk: "kx \<le> ky"
    unfolding kx_def ky_def using assms by (intro floor_mono) simp
  have ux: "ulp_exponent x = ex" using assms(1) by (simp add: ulp_exponent_def ex_def kx_def)
  have uy: "ulp_exponent y = ey" using y by (simp add: ulp_exponent_def ey_def ky_def)
  have fx: "fl x = of_int (round_half_even (x / 2 powi ex)) * 2 powi ex"
    using assms(1) by (simp add: fl_def ux)
  have fy: "fl y = of_int (round_half_even (y / 2 powi ey)) * 2 powi ey"
    using y by (simp add: fl_def uy)
  have ee: "ex \<le> ey" using kk by (simp add: ex_def ey_def)
  show ?thesis
  proof (cases "ex = ey")
    case True
    have "x / 2 powi ey \<le> y / 2 powi ey"
      using assms(2) by (simp add: divide_right_mono)
    then have "round_half_even (x / 2 powi ey) \<le> round_half_even (y / 2 powi ey)"
      by (rule round_half_even_mono)
    then show ?thesis unfolding fx fy True
      by (simp add: mult_right_mono)
  next
    case False
    then have lt: "ex + 1 \<le> ey" using ee by simp
    then have kyn: "ey = ky - 52" by (auto simp add: ex_def ey_def)
    have "x / 2 powi ex \<le> 2 powi (kx + 1) / 2 powi ex"
      using bx(2) by (simp add: divide_right_mono)
    also have "\<dots> = 2 powi (kx + 1 - ex)"
      by (simp add: power_int_diff)
    also have "\<dots> \<le> 2 powi 53"
      by (rule power_int_increasing) (simp_all add: ex_def)
    finally have "x / 2 powi ex \<le> of_int (2 ^ 53)" by simp
    then have "round_half_even (x / 2 powi ex) \<le> 2 ^ 53"
      using round_half_even_mono round_half_even_of_int by metis
    then have "real_of_int (round_half_even (x / 2 powi ex)) \<le> 2 powi 53"
      by (metis of_int_le_iff of_int_numeral of_int_power power_int_numeral)
    then have "fl x \<le> 2 powi 53 * 2 powi ex"
      unfolding fx by (simp add: mult_right_mono)
    also have "\<dots> = 2 powi (ex + 53)"
      by (simp add: power_int_add add.commute)
    also have "\<dots> \<le> 2 powi (ey + 52)"
      by (rule power_int_increasing) (use lt in simp_all)
    also have "\<dots> = 2 powi 52 * 2 powi ey"
      by (simp add: power_int_add add.commute)
    also have "\<dots> \<le> fl y"
    proof -
      have "real_of_int (2 ^ 52) = 2 powi 52" by simp
      also have "\<dots> = 2 powi (ky - ey)" by (simp add: kyn)
      also have "\<dots> = 2 powi ky / 2 powi ey" by (simp add: power_int_diff)
      also have "\<dots> \<le> y / 2 powi ey"
        using by'(1) by (simp add: divide_right_mono)
      finally have "2 ^ 52 \<le> round_half_even (y / 2 powi ey)"
        using round_half_even_mono round_half_even_of_int by metis
      then have "2 powi 52 \<le> real_of_int (round_half_even (y / 2 powi ey))"
        by (metis of_int_le_iff of_int_numeral of_int_power power_int_numeral)
      then show ?thesis unfolding fy by (simp add: mult_right_mono)
    qed
    finally show ?thesis .
  qed
qed

lemma fl_mono_nonneg:
  assumes "0 \<le> x" and "x \<le> y"
  shows "fl x \<le> fl y"
proof (cases "x = 0")
  case True
  then show ?thesis using fl_nonneg[of y] assms by (simp add: fl_def)
next
  case False
  then show ?thesis using fl_mono_pos assms by simp
qed

lemma length_snapHeights64: "length (snapHeights64 p) = length (snapPoints p)"
  by (simp add: snapHeights64_def)

lemma snapHeights64_Nil: "snapHeights64 p = [] \<longleftrightarrow> snapPoints p = []"
  by (simp add: snapHeights64_def)

text \<open>The snap offsets of the example sheets, in doubles.\<close>

lemma snapHeights64_adjacent: "snapHeights64 adjacent_props = [560, 560]"
proof -
  have a: "fl (1 - 5404319552844595 / 2 ^ 54) = 3152519739159347 / 2 ^ 52"
    by (subst fl_eq[where k = "- 1"]) (simp_all add: round_half_even_def)
  have b: "fl (1 - 1351079888211149 / 2 ^ 52) = 3152519739159347 / 2 ^ 52"
    by (subst fl_eq[where k = "- 1"]) (simp_all add: round_half_even_def)
  have c: "fl (800 * (3152519739159347 / 2 ^ 52)) = 560"
    by (subst fl_eq[where k = 9]) (simp_all add: round_half_even_def)
  show ?thesis
    by (simp only: snapHeights64_def adjacent_props_def props.simps list.map a b c)
qed

lemma snapHeights64_rounded: "snapHeights64 rounded_props = [3518437208883199 / 2 ^ 45, 700]"
proof -
  have a: "fl (1 - 8106479329266893 / 2 ^ 53) = 900719925474099 / 2 ^ 53"
    by (subst fl_eq[where k = "- 4"]) (simp_all add: round_half_even_def)
  have b: "fl (1 - 5404319552844595 / 2 ^ 54) = 3152519739159347 / 2 ^ 52"
    by (subst fl_eq[where k = "- 1"]) (simp_all add: round_half_even_def)
  have c: "fl (1000 * (900719925474099 / 2 ^ 53)) = 3518437208883199 / 2 ^ 45"
    by (subst fl_eq[where k = 6]) (simp_all add: round_half_even_def)
  have d: "fl (1000 * (3152519739159347 / 2 ^ 52)) = 700"
    by (subst fl_eq[where k = 9]) (simp_all add: round_half_even_def)
  show ?thesis
    by (simp only: snapHeights64_def rounded_props_def props.simps list.map a b c d)
qed

lemma snapHeights64_dyadic: "snapHeights64 dyadic_props = [768, 512, 256]"
proof -
  have a: "fl (1 - 0.25) = 0.75" "fl (1 - 0.5) = 0.5"
    by (subst fl_eq[where k = "- 1"], simp_all add: round_half_even_def)+
  have b: "fl (1 - 0.75) = 0.25"
    by (subst fl_eq[where k = "- 2"]) (simp_all add: round_half_even_def)
  have c: "fl (1024 * 0.75) = 768" "fl (1024 * 0.5) = 512"
    by (subst fl_eq[where k = 9], simp_all add: round_half_even_def)+
  have d: "fl (1024 * 0.25) = 256"
    by (subst fl_eq[where k = 8]) (simp_all add: round_half_even_def)
  show ?thesis
    by (simp only: snapHeights64_def dyadic_props_def props.simps list.map a b c d)
qed

text \<open>
  C8, as stated, fails on the code. The doubles written \<^verbatim>\<open>0.3\<close> and
  \<^verbatim>\<open>0.30000000000000004\<close> are strictly increasing fractions in \<open>(0, 1]\<close>, and on a screen
  800 high both give the offset 560: \<^verbatim>\<open>1 - point\<close> rounds to the same double. The claim
  also names no condition on the screen height: with the height 0 all offsets are 0, and
  with a negative height they increase and are negative.
\<close>

theorem snap_offsets_counterexample:
  "sorted_wrt (<) (snapPoints adjacent_props)
   \<and> list_all (\<lambda>f. 0 < f \<and> f \<le> 1) (snapPoints adjacent_props)
   \<and> map fl (snapPoints adjacent_props) = snapPoints adjacent_props
   \<and> snapHeights64 adjacent_props = [560, 560]
   \<and> \<not> sorted_wrt (>) (snapHeights64 adjacent_props)
   \<and> snapHeights64 flat_props = [0, 0]
   \<and> snapHeights64 negative_props = [- 600, - 400]"
proof -
  have a: "fl (5404319552844595 / 2 ^ 54) = 5404319552844595 / 2 ^ 54"
    by (subst fl_eq[where k = "- 2"]) (simp_all add: round_half_even_def)
  have b: "fl (1351079888211149 / 2 ^ 52) = 1351079888211149 / 2 ^ 52"
    by (subst fl_eq[where k = "- 2"]) (simp_all add: round_half_even_def)
  have c: "fl (1 - 0.25) = 0.75" "fl (1 - 0.5) = 0.5"
    by (subst fl_eq[where k = "- 1"], simp_all add: round_half_even_def)+
  have d: "fl (- 800 * 0.75) = - 600"
    by (subst fl_eq[where k = 9]) (simp_all add: round_half_even_def)
  have e: "fl (- 800 * 0.5) = - 400"
    by (subst fl_eq[where k = 8]) (simp_all add: round_half_even_def)
  have z: "fl (0 * x) = 0" for x by (simp add: fl_def)
  have flat: "snapHeights64 flat_props = [0, 0]"
    by (simp only: snapHeights64_def flat_props_def props.simps list.map z)
  have neg: "snapHeights64 negative_props = [- 600, - 400]"
    by (simp only: snapHeights64_def negative_props_def props.simps list.map c d e)
  have p: "snapPoints adjacent_props = [5404319552844595 / 2 ^ 54, 1351079888211149 / 2 ^ 52]"
    by (simp add: adjacent_props_def)
  have c1: "sorted_wrt (<) (snapPoints adjacent_props)"
    and c2: "list_all (\<lambda>f. 0 < f \<and> f \<le> 1) (snapPoints adjacent_props)"
    unfolding p by simp_all
  have c3: "map fl (snapPoints adjacent_props) = snapPoints adjacent_props"
    unfolding p by (simp only: list.map a b)
  have c5: "\<not> sorted_wrt (>) (snapHeights64 adjacent_props)"
    unfolding snapHeights64_adjacent by simp
  show ?thesis
    using c1 c2 c3 snapHeights64_adjacent c5 flat neg by blast
qed

text \<open>
  C8, as amended. On a screen whose height is not negative, for snap fractions that
  increase strictly and lie in \<open>(0, 1]\<close>, the snap offsets are as many as the fractions,
  the offset at index \<open>i\<close> is \<open>SCREEN_HEIGHT * (1 - f\<^sub>i)\<close> computed in doubles, the
  offsets never increase from one index to the next, and none is negative.
\<close>

theorem snapHeights64_decreasing:
  assumes "0 \<le> SCREEN_HEIGHT p"
    and "sorted_wrt (<) (snapPoints p)"
    and "\<forall>f\<in>set (snapPoints p). 0 < f \<and> f \<le> 1"
  shows "length (snapHeights64 p) = length (snapPoints p)
       \<and> (\<forall>i<length (snapPoints p).
            snapHeights64 p ! i = fl (SCREEN_HEIGHT p * fl (1 - snapPoints p ! i)))
       \<and> sorted_wrt (\<ge>) (snapHeights64 p)
       \<and> (\<forall>h\<in>set (snapHeights64 p). 0 \<le> h)"
proof -
  have step: "fl (SCREEN_HEIGHT p * fl (1 - g)) \<le> fl (SCREEN_HEIGHT p * fl (1 - f))"
    if "f \<in> set (snapPoints p)" "g \<in> set (snapPoints p)" "f < g" for f g
  proof -
    have g1: "0 \<le> 1 - g" using assms(3) that(2) by auto
    have "fl (1 - g) \<le> fl (1 - f)"
      by (rule fl_mono_nonneg[OF g1]) (use that(3) in simp)
    then have "SCREEN_HEIGHT p * fl (1 - g) \<le> SCREEN_HEIGHT p * fl (1 - f)"
      using assms(1) by (rule mult_left_mono)
    moreover have "0 \<le> SCREEN_HEIGHT p * fl (1 - g)"
      using assms(1) fl_nonneg[OF g1] by simp
    ultimately show ?thesis by (rule fl_mono_nonneg[rotated])
  qed
  have s: "sorted_wrt (\<ge>) (snapHeights64 p)"
    unfolding snapHeights64_def sorted_wrt_map
    by (rule sorted_wrt_mono_rel[OF _ assms(2)]) (simp add: step)
  have n: "0 \<le> fl (SCREEN_HEIGHT p * fl (1 - f))" if "f \<in> set (snapPoints p)" for f
  proof -
    have "0 \<le> 1 - f" using assms(3) that by auto
    then have "0 \<le> SCREEN_HEIGHT p * fl (1 - f)"
      using assms(1) fl_nonneg by simp
    then show ?thesis by (rule fl_nonneg)
  qed
  have n': "\<forall>h\<in>set (snapHeights64 p). 0 \<le> h"
    using n by (auto simp add: snapHeights64_def)
  show ?thesis
    using s n' by (simp add: snapHeights64_def)
qed

text \<open>A sheet whose fractions and products are exact doubles: the offsets 768, 512, 256.\<close>

theorem snapHeights64_decreasing_witness:
  "0 \<le> SCREEN_HEIGHT dyadic_props \<and> sorted_wrt (<) (snapPoints dyadic_props)
   \<and> list_all (\<lambda>f. 0 < f \<and> f \<le> 1) (snapPoints dyadic_props)
   \<and> snapHeights64 dyadic_props = [768, 512, 256]
   \<and> sorted_wrt (\<ge>) (snapHeights64 dyadic_props)
   \<and> length (snapHeights64 dyadic_props) = 3"
proof -
  have h: "0 \<le> SCREEN_HEIGHT dyadic_props" "sorted_wrt (<) (snapPoints dyadic_props)"
    "\<forall>f\<in>set (snapPoints dyadic_props). 0 < f \<and> f \<le> 1"
    by (simp_all add: dyadic_props_def)
  have l: "length (snapPoints dyadic_props) = 3"
    "list_all (\<lambda>f. 0 < f \<and> f \<le> 1) (snapPoints dyadic_props)"
    by (simp_all add: dyadic_props_def)
  show ?thesis
    using h(1,2) snapHeights64_decreasing [OF h]
    by (simp add: snapHeights64_dyadic l)
qed

subsection \<open>The nearest snap in doubles\<close>

text \<open>
  The invariant of the loop, on the computed distances \<open>\<bar>fl (position - height)\<bar>\<close>.
\<close>

lemma forEach64_inv:
  assumes "k + length xs = length hs" "drop k hs = xs"
    and "n < length hs" "n \<le> k" "d = \<bar>fl (pos - hs ! n)\<bar>"
    and "\<forall>j<k. d \<le> \<bar>fl (pos - hs ! j)\<bar>" "\<forall>j<n. d < \<bar>fl (pos - hs ! j)\<bar>"
    and "findNearestSnap64_forEach pos xs k (n, d) = (n', d')"
  shows "n' < length hs \<and> d' = \<bar>fl (pos - hs ! n')\<bar>
         \<and> (\<forall>j<length hs. d' \<le> \<bar>fl (pos - hs ! j)\<bar>)
         \<and> (\<forall>j<n'. d' < \<bar>fl (pos - hs ! j)\<bar>)"
  using assms
proof (induction xs arbitrary: k n d)
  case Nil
  then show ?case by auto
next
  case (Cons h rest)
  have kl: "k < length hs" using Cons.prems(1) by simp
  have hk: "hs ! k = h" using Cons.prems(2) kl
    by (metis nth_via_drop)
  have dr: "drop (Suc k) hs = rest" using Cons.prems(2)
    by (metis drop_Suc tl_drop list.sel(3))
  have len: "Suc k + length rest = length hs" using Cons.prems(1) by simp
  show ?case
  proof (cases "\<bar>fl (pos - h)\<bar> < d")
    case True
    have run: "findNearestSnap64_forEach pos rest (Suc k) (k, \<bar>fl (pos - h)\<bar>) = (n', d')"
      using Cons.prems(8) True by simp
    have a: "\<forall>j<Suc k. \<bar>fl (pos - h)\<bar> \<le> \<bar>fl (pos - hs ! j)\<bar>"
      using Cons.prems(6) True hk by (auto simp: less_Suc_eq)
    have b: "\<forall>j<k. \<bar>fl (pos - h)\<bar> < \<bar>fl (pos - hs ! j)\<bar>"
      using Cons.prems(6) True by fastforce
    show ?thesis
      by (rule Cons.IH[OF len dr kl _ _ a b run]) (simp_all add: hk)
  next
    case False
    have run: "findNearestSnap64_forEach pos rest (Suc k) (n, d) = (n', d')"
      using Cons.prems(8) False by simp
    have a: "\<forall>j<Suc k. d \<le> \<bar>fl (pos - hs ! j)\<bar>"
      using Cons.prems(6) False hk by (auto simp: less_Suc_eq)
    show ?thesis
      by (rule Cons.IH[OF len dr Cons.prems(3) _ Cons.prems(5) a Cons.prems(7) run])
         (simp add: Cons.prems(4) le_SucI)
  qed
qed

lemma findNearestSnap64_nearest:
  assumes "hs \<noteq> []"
  shows "findNearestSnap64 hs pos < length hs"
    and "j < length hs \<Longrightarrow>
           \<bar>fl (pos - hs ! findNearestSnap64 hs pos)\<bar> \<le> \<bar>fl (pos - hs ! j)\<bar>"
    and "j < findNearestSnap64 hs pos \<Longrightarrow>
           \<bar>fl (pos - hs ! findNearestSnap64 hs pos)\<bar> < \<bar>fl (pos - hs ! j)\<bar>"
proof -
  obtain h0 rest where hs: "hs = h0 # rest" using assms by (cases hs) auto
  obtain n' d' where r: "findNearestSnap64_forEach pos hs 0 (0, \<bar>fl (pos - h0)\<bar>) = (n', d')"
    by (cases "findNearestSnap64_forEach pos hs 0 (0, \<bar>fl (pos - h0)\<bar>)") auto
  have f: "findNearestSnap64 hs pos = n'"
    using r by (simp add: findNearestSnap64_def hs)
  have inv: "n' < length hs \<and> d' = \<bar>fl (pos - hs ! n')\<bar>
         \<and> (\<forall>j<length hs. d' \<le> \<bar>fl (pos - hs ! j)\<bar>)
         \<and> (\<forall>j<n'. d' < \<bar>fl (pos - hs ! j)\<bar>)"
  proof (rule forEach64_inv[where k = 0 and xs = hs and n = 0 and d = "\<bar>fl (pos - h0)\<bar>" and pos = pos])
    show "findNearestSnap64_forEach pos hs 0 (0, \<bar>fl (pos - h0)\<bar>) = (n', d')" by (rule r)
  qed (simp_all add: hs)
  show "findNearestSnap64 hs pos < length hs" using inv f by simp
  show "j < length hs \<Longrightarrow>
          \<bar>fl (pos - hs ! findNearestSnap64 hs pos)\<bar> \<le> \<bar>fl (pos - hs ! j)\<bar>"
    using inv f by auto
  show "j < findNearestSnap64 hs pos \<Longrightarrow>
          \<bar>fl (pos - hs ! findNearestSnap64 hs pos)\<bar> < \<bar>fl (pos - hs ! j)\<bar>"
    using inv f by auto
qed

lemma snapToIndex64_accepts:
  "i < length (snapHeights64 p) \<Longrightarrow>
   snapToIndex64 p (int i) s =
     animateTo (snapHeights64 p ! i) HapticCb (s\<lparr>currentSnapIndex := int i\<rparr>)"
  by (simp add: snapToIndex64_def)

lemma release64_slow:
  "\<bar>vy\<bar> \<le> 0.7 \<Longrightarrow>
   onPanResponderRelease64 p seen dy vy s =
     snapToIndex64 p (int (findNearestSnap64 (snapHeights64 p) (fl (lastOffset s + dy))))
       (s\<lparr>isPanning := False\<rparr>)"
  by (auto simp add: onPanResponderRelease64_def Let_def)

text \<open>
  C3, as stated, fails on the code. The sheet has the snap offsets
  \<open>[99.99999999999997, 700]\<close> (the fractions written \<^verbatim>\<open>0.9\<close> and \<^verbatim>\<open>0.3\<close> on a screen
  1000 high), rests at 700 and is released slowly after a drag of -300, at the position
  400. The offset 700 is strictly nearer to 400 than the offset at index 0, but both
  computed distances are 300, and the sheet goes to index 0.
\<close>

theorem nearest_snap_counterexample:
  "snapHeights64 rounded_props = [3518437208883199 / 2 ^ 45, 700]
   \<and> fl (700 + - 300) = 400
   \<and> \<bar>400 - snapHeights64 rounded_props ! 1\<bar> < \<bar>400 - snapHeights64 rounded_props ! 0\<bar>
   \<and> findNearestSnap64 (snapHeights64 rounded_props) 400 = 0
   \<and> currentSnapIndex
        (onPanResponderRelease64 rounded_props (currentSnapIndex (mount rounded_props)) (- 300) 0
           ((mount rounded_props)\<lparr>lastOffset := 700\<rparr>)) = 0
   \<and> animation
        (onPanResponderRelease64 rounded_props (currentSnapIndex (mount rounded_props)) (- 300) 0
           ((mount rounded_props)\<lparr>lastOffset := 700\<rparr>))
       = Some (3518437208883199 / 2 ^ 45, HapticCb)"
proof -
  have y: "fl 400 = 400"
    by (subst fl_eq[where k = 8]) (simp_all add: round_half_even_def)
  have d0: "fl (400 - 3518437208883199 / 2 ^ 45) = 300"
    by (subst fl_eq[where k = 8]) (simp_all add: round_half_even_def)
  have d1: "fl (400 - 700) = - 300"
    by (subst fl_eq[where k = 8]) (simp_all add: round_half_even_def)
  have f: "findNearestSnap64 (snapHeights64 rounded_props) 400 = 0"
    unfolding snapHeights64_rounded
    by (simp only: findNearestSnap64_def findNearestSnap64_forEach.simps list.case Let_def d0 d1)
       simp
  have n0: "snapHeights64 rounded_props ! 0 = 3518437208883199 / 2 ^ 45"
    and n1: "snapHeights64 rounded_props ! 1 = 700"
    and len: "length (snapHeights64 rounded_props) = 2"
    unfolding snapHeights64_rounded by simp_all
  have r: "onPanResponderRelease64 rounded_props (currentSnapIndex (mount rounded_props)) (- 300) 0
             ((mount rounded_props)\<lparr>lastOffset := 700\<rparr>)
           = animateTo (3518437208883199 / 2 ^ 45) HapticCb
               ((mount rounded_props)\<lparr>lastOffset := 700, isPanning := False, currentSnapIndex := 0\<rparr>)"
    by (simp add: release64_slow snapToIndex64_def y f n0 len)
  have c3: "\<bar>400 - snapHeights64 rounded_props ! 1\<bar> < \<bar>400 - snapHeights64 rounded_props ! 0\<bar>"
    unfolding n0 n1 by simp
  have c2: "fl (700 + - 300) = 400" using y by simp
  show ?thesis
    unfolding r using snapHeights64_rounded c2 c3 f by (simp add: animateTo_def)
qed

text \<open>
  C3, as amended. A release with \<open>\<bar>vy\<bar> \<le> 0.7\<close> on a sheet with at least one snap point
  sets the snap index to \<open>i = findNearestSnap(y)\<close>, where \<open>y\<close> is \<open>lastOffset + dy\<close>
  computed in doubles, and starts the animation to \<open>snapHeights[i]\<close>. That index has
  the least computed distance \<open>\<bar>y - snapHeights[j]\<bar>\<close>, the difference rounded to a
  double: no snap offset has a smaller computed distance, and every snap offset at a
  lower index has a strictly greater one, so of several offsets at the least computed
  distance the lowest index wins.
\<close>

theorem slow_release_snaps_to_nearest_computed:
  assumes "snapPoints p \<noteq> []" and "\<bar>vy\<bar> \<le> 0.7"
  shows "let hs = snapHeights64 p; y = fl (lastOffset s + dy); i = findNearestSnap64 hs y
         in onPanResponderRelease64 p (currentSnapIndex (mount p)) dy vy s =
              animateTo (hs ! i) HapticCb (s\<lparr>isPanning := False, currentSnapIndex := int i\<rparr>)
          \<and> i < length hs
          \<and> (\<forall>j<length hs. \<bar>fl (y - hs ! i)\<bar> \<le> \<bar>fl (y - hs ! j)\<bar>)
          \<and> (\<forall>j<i. \<bar>fl (y - hs ! i)\<bar> < \<bar>fl (y - hs ! j)\<bar>)"
proof -
  have ne: "snapHeights64 p \<noteq> []" using assms(1) by (simp add: snapHeights64_Nil)
  show ?thesis
    using findNearestSnap64_nearest[OF ne] release64_slow[OF assms(2)]
    by (simp add: Let_def snapToIndex64_accepts)
qed

text \<open>
  A tie of computed distances that is a tie of exact ones: snap offsets 768, 512 and 256,
  released at 384, which is 128 away from both 512 and 256. The sheet goes to index 1.
\<close>

theorem slow_release_snaps_to_nearest_computed_witness:
  "snapPoints dyadic_props \<noteq> [] \<and> \<bar>0::real\<bar> \<le> 0.7
   \<and> snapHeights64 dyadic_props = [768, 512, 256]
   \<and> fl (300 + 84) = 384
   \<and> findNearestSnap64 (snapHeights64 dyadic_props) 384 = 1
   \<and> currentSnapIndex
        (onPanResponderRelease64 dyadic_props (currentSnapIndex (mount dyadic_props)) 84 0
           ((mount dyadic_props)\<lparr>lastOffset := 300\<rparr>)) = 1
   \<and> animation
        (onPanResponderRelease64 dyadic_props (currentSnapIndex (mount dyadic_props)) 84 0
           ((mount dyadic_props)\<lparr>lastOffset := 300\<rparr>)) = Some (512, HapticCb)"
proof -
  have h: "snapPoints dyadic_props \<noteq> []" "\<bar>0::real\<bar> \<le> 0.7"
    by (simp_all add: dyadic_props_def)
  have y: "fl 384 = 384"
    by (subst fl_eq[where k = 8]) (simp_all add: round_half_even_def)
  have d0: "fl (384 - 768) = - 384"
    by (subst fl_eq[where k = 8]) (simp_all add: round_half_even_def)
  have d1: "fl (384 - 512) = - 128"
    by (subst fl_eq[where k = 7]) (simp_all add: round_half_even_def)
  have d2: "fl (384 - 256) = 128"
    by (subst fl_eq[where k = 7]) (simp_all add: round_half_even_def)
  have f: "findNearestSnap64 (snapHeights64 dyadic_props) 384 = 1"
    unfolding snapHeights64_dyadic
    by (simp only: findNearestSnap64_def findNearestSnap64_forEach.simps list.case Let_def d0 d1 d2)
       simp
  have n1: "snapHeights64 dyadic_props ! Suc 0 = 512"
    unfolding snapHeights64_dyadic by simp
  have l: "lastOffset ((mount dyadic_props)\<lparr>lastOffset := 300\<rparr>) = 300" by simp
  have c: "fl (300 + 84) = 384" using y by simp
  note t = slow_release_snaps_to_nearest_computed
             [OF h, of "(mount dyadic_props)\<lparr>lastOffset := 300\<rparr>" 84]
  have r: "onPanResponderRelease64 dyadic_props (currentSnapIndex (mount dyadic_props)) 84 0
             ((mount dyadic_props)\<lparr>lastOffset := 300\<rparr>)
           = animateTo 512 HapticCb
               ((mount dyadic_props)\<lparr>lastOffset := 300, isPanning := False, currentSnapIndex := 1\<rparr>)"
    using t by (simp add: Let_def y f n1)
  show ?thesis
    unfolding r using h snapHeights64_dyadic c f by (simp add: animateTo_def)
qed

subsection \<open>Callbacks and pending work\<close>
















end
